theory Spec2Isabelle
  imports
    Complex_Main
    "HOL-Library.Char_ord"
    "HOL-Library.List_Lexorder"
    "HOL-Library.Product_Lexorder"
    "HOL-Library.Multiset"
    "HOL-Library.Sublist"
begin

section \<open>Python string methods used by the cleaning functions\<close>

text \<open>
  Cells of the text columns are Python strings. They are modelled as \<open>string\<close> over
  ASCII; a missing cell (NaN) is \<open>None\<close>. The methods below are the ones
  \<open>main.py\<close> calls through the \<open>.str\<close> accessor.
\<close>

definition upper_char :: "char \<Rightarrow> char" where
  "upper_char c =
     (case map_of (zip ''abcdefghijklmnopqrstuvwxyz'' ''ABCDEFGHIJKLMNOPQRSTUVWXYZ'') c of
        None \<Rightarrow> c
      | Some u \<Rightarrow> u)"

definition upper :: "string \<Rightarrow> string" where
  "upper s = map upper_char s"

definition isspace :: "char \<Rightarrow> bool" where
  "isspace c \<longleftrightarrow>
     c \<in> set [CHR '' '', CHR 0x09, CHR 0x0A, CHR 0x0B, CHR 0x0C, CHR 0x0D,
              CHR 0x1C, CHR 0x1D, CHR 0x1E, CHR 0x1F]"

definition strip :: "string \<Rightarrow> string" where
  "strip s = rev (dropWhile isspace (rev (dropWhile isspace s)))"

text \<open>\<open>s.split(sep)\<close> for a one-character separator: never the empty list.\<close>

fun split :: "char \<Rightarrow> string \<Rightarrow> string list" where
  "split sep [] = [[]]"
| "split sep (c # cs) =
     (if c = sep then [] # split sep cs
      else (case split sep cs of
              w # ws \<Rightarrow> (c # w) # ws
            | [] \<Rightarrow> [[c]]))"

fun startswith :: "string \<Rightarrow> string \<Rightarrow> bool" where
  "startswith s [] = True"
| "startswith [] (p # ps) = False"
| "startswith (c # cs) (p # ps) = (c = p \<and> startswith cs ps)"

definition endswith :: "string \<Rightarrow> string \<Rightarrow> bool" where
  "endswith s suf \<longleftrightarrow> startswith (rev s) (rev suf)"

text \<open>\<open>pat in s\<close>, which is what \<open>.str.contains\<close> decides for a literal.\<close>

fun contains :: "string \<Rightarrow> string \<Rightarrow> bool" where
  "contains [] pat = (pat = [])"
| "contains (c # cs) pat = (startswith (c # cs) pat \<or> contains cs pat)"

text \<open>\<open>s.replace(old, '')\<close>: every occurrence of \<open>old\<close>, left to right, is deleted.\<close>

function str_remove :: "string \<Rightarrow> string \<Rightarrow> string" where
  "str_remove old [] = []"
| "str_remove old (c # cs) =
     (if old \<noteq> [] \<and> startswith (c # cs) old
      then str_remove old (drop (length old) (c # cs))
      else c # str_remove old cs)"
  by pat_completeness auto
termination
  by (relation "measure (\<lambda>(old, s). length s)") (auto simp: Suc_diff_le)

text \<open>\<open>astype(str)\<close> on one cell: a missing cell becomes the text \<open>nan\<close>.\<close>

fun astype_str :: "string option \<Rightarrow> string" where
  "astype_str None = ''nan''"
| "astype_str (Some s) = s"

section \<open>Data model\<close>

datatype error = ValueError

record date =
  year :: nat
  month :: nat
  day :: nat

text \<open>
  One row of the data frame. \<open>Amount\<close> and \<open>Date\<close> are text in the extracted
  frame and become a number and a timestamp in \<open>limpiar_ventas_validas\<close>, so their
  cell types are parameters. \<open>Audit_Date\<close> is already a timestamp: the loader in
  \<open>etl_utils.py\<close> sets it with \<open>pd.to_datetime(nombre_archivo, errors='coerce')\<close>.
  Amounts are exact rationals where the code has 64-bit floats.
\<close>

record ('a, 'd) row =
  Sale_ID :: "string option"
  Product :: "string option"
  Amount :: "'a option"
  Date :: "'d option"
  Audit_Date :: "date option"

text \<open>A data frame: the rows in order, each with its index label.\<close>

type_synonym ('a, 'd) frame = "(nat \<times> ('a, 'd) row) list"

record ('a, 'd) invalid_row = "('a, 'd) row" +
  Reason :: string

record resumen_row =
  Mes :: string
  Producto :: string
  Ventas_Totales :: rat
  Numero_Transacciones :: nat
  Venta_Minima :: "rat option"

text \<open>
  The two conversions that pandas supplies and the repository does not define, taken as
  parameters: \<open>to_datetime\<close> is \<open>pd.to_datetime(_, errors='coerce')\<close> on one cell
  (NaT is \<open>None\<close>), \<open>to_float\<close> is the float conversion of \<open>astype(float)\<close> on
  one cell: it raises \<open>ValueError\<close>, or yields NaN (\<open>None\<close>) or a number. Both are
  applied cell by cell. The columns \<open>Sale_ID\<close>, \<open>Product\<close>, \<open>Amount\<close> and
  \<open>Date\<close> of the extracted frame hold text or nothing.
\<close>

record parsers =
  to_datetime :: "string \<Rightarrow> date option"
  to_float :: "string \<Rightarrow> error + rat option"

section \<open>Data-frame operations\<close>

definition assign :: "('r \<Rightarrow> 's) \<Rightarrow> (nat \<times> 'r) list \<Rightarrow> (nat \<times> 's) list" where
  "assign f df = map (\<lambda>(i, r). (i, f r)) df"

text \<open>\<open>drop_duplicates(subset=[key], keep='first')\<close>.\<close>

primrec drop_duplicates_seen :: "('r \<Rightarrow> 'k) \<Rightarrow> 'k list \<Rightarrow> 'r list \<Rightarrow> 'r list" where
  "drop_duplicates_seen key seen [] = []"
| "drop_duplicates_seen key seen (x # xs) =
     (if key x \<in> set seen then drop_duplicates_seen key seen xs
      else x # drop_duplicates_seen key (key x # seen) xs)"

definition drop_duplicates :: "('r \<Rightarrow> 'k) \<Rightarrow> 'r list \<Rightarrow> 'r list" where
  "drop_duplicates key df = drop_duplicates_seen key [] df"

text \<open>\<open>duplicated(subset=key, keep=False)\<close>: the mask of every row whose key occurs twice.\<close>

definition duplicated :: "('r \<Rightarrow> 'k) \<Rightarrow> 'r list \<Rightarrow> 'r \<Rightarrow> bool" where
  "duplicated key df x \<longleftrightarrow> 1 < length (filter (\<lambda>y. key y = key x) df)"

text \<open>\<open>isnull().any(axis=1)\<close> on one row.\<close>

definition isnull_any :: "('a, 'd) row \<Rightarrow> bool" where
  "isnull_any r \<longleftrightarrow>
     Sale_ID r = None \<or> Product r = None \<or> Amount r = None \<or> Date r = None
       \<or> Audit_Date r = None"

text \<open>\<open>round(2)\<close>, ties to even.\<close>

definition round2 :: "rat \<Rightarrow> rat" where
  "round2 x =
     (let y = x * 100; n = \<lfloor>y\<rfloor>; f = y - of_int n
      in of_int (if f < 1 / 2 then n
                 else if 1 / 2 < f then n + 1
                 else if even n then n else n + 1) / 100)"

section \<open>limpiar_ventas_validas\<close>

text \<open>
  The Amount block on one cell: delete \<open>USD\<close>, then \<open>EUR\<close>, convert to float, multiply
  by 0.85 where the original text ends with \<open>EUR\<close>, round to two decimals.
\<close>

fun amount_cell :: "parsers \<Rightarrow> string option \<Rightarrow> error + rat option" where
  "amount_cell pd None = Inr None"
| "amount_cell pd (Some s) =
     (case to_float pd (str_remove ''EUR'' (str_remove ''USD'' s)) of
        Inl e \<Rightarrow> Inl e
      | Inr v \<Rightarrow>
          Inr (map_option (\<lambda>x. round2 (if endswith s ''EUR'' then x * (85 / 100) else x)) v))"

definition with_Amount :: "('a, 'd) row \<Rightarrow> 'b option \<Rightarrow> ('b, 'd) row" where
  "with_Amount r a =
     \<lparr>Sale_ID = Sale_ID r, Product = Product r, Amount = a, Date = Date r,
      Audit_Date = Audit_Date r\<rparr>"

definition with_Date :: "('a, 'd) row \<Rightarrow> 'e option \<Rightarrow> ('a, 'e) row" where
  "with_Date r d =
     \<lparr>Sale_ID = Sale_ID r, Product = Product r, Amount = Amount r, Date = d,
      Audit_Date = Audit_Date r\<rparr>"

text \<open>The Amount block on the column: the first cell that does not convert raises.\<close>

fun amount_column :: "parsers \<Rightarrow> (string, 'd) frame \<Rightarrow> error + (rat, 'd) frame" where
  "amount_column pd [] = Inr []"
| "amount_column pd ((i, r) # df) =
     (case amount_cell pd (Amount r) of
        Inl e \<Rightarrow> Inl e
      | Inr a \<Rightarrow>
          (case amount_column pd df of
             Inl e \<Rightarrow> Inl e
           | Inr df' \<Rightarrow> Inr ((i, with_Amount r a) # df')))"

definition product_letter :: "string \<Rightarrow> string" where
  "product_letter s = last (split CHR ''-'' (strip (upper s)))"

text \<open>
  The steps are those of \<open>main.py\<close>, in its order: lines 59 to 63 (\<open>Sale_ID\<close> in
  upper case, rows without it dropped, first row of each \<open>Sale_ID\<close> kept), lines 67
  to 69 (product), lines 75 to 87 (amount), lines 92 to 97 (dates). Line 93 converts
  \<open>Audit_Date\<close>, which holds timestamps already and stays as it is. The function has
  no \<open>try\<close>: a \<open>ValueError\<close> of the float conversion leaves it.
\<close>

definition limpiar_ventas_validas ::
    "parsers \<Rightarrow> (string, string) frame \<Rightarrow> error + (rat, date) frame" where
  "limpiar_ventas_validas pd df_principal =
     (let df = assign (\<lambda>r. r\<lparr>Sale_ID := map_option upper (Sale_ID r)\<rparr>) df_principal;
          df = filter (\<lambda>(i, r). Sale_ID r \<noteq> None) df;
          df = drop_duplicates (\<lambda>(i, r). Sale_ID r) df;
          df = assign (\<lambda>r. r\<lparr>Product := map_option product_letter (Product r)\<rparr>) df;
          df = filter (\<lambda>(i, r). Product r \<noteq> None) df
      in case amount_column pd df of
           Inl e \<Rightarrow> Inl e
         | Inr df \<Rightarrow>
             (let df = filter (\<lambda>(i, r). Amount r \<noteq> None) df;
                  df = assign (\<lambda>r. with_Date r (Option.bind (Date r) (to_datetime pd))) df;
                  df = filter (\<lambda>(i, r). Date r \<noteq> None) df;
                  df = filter (\<lambda>(i, r). Audit_Date r \<noteq> None) df
              in Inr df))"

section \<open>limpiar_ventas_invalidas\<close>

text \<open>
  Lines 112 and 113: both columns go through \<open>astype(str)\<close> first, so neither holds a
  missing cell afterwards.
\<close>

definition texto :: "('a, 'd) row \<Rightarrow> ('a, 'd) row" where
  "texto r =
     r\<lparr>Sale_ID := Some (upper (astype_str (Sale_ID r))),
       Product := Some (upper (last (split CHR ''-'' (astype_str (Product r)))))\<rparr>"

definition df_texto :: "('a, 'd) frame \<Rightarrow> ('a, 'd) frame" where
  "df_texto df_principal = assign texto df_principal"

definition df_nulos :: "('a, 'd) frame \<Rightarrow> ('a, 'd) frame" where
  "df_nulos df_principal = filter (\<lambda>(i, r). isnull_any r) (df_texto df_principal)"

definition df_no_nulos :: "('a, 'd) frame \<Rightarrow> ('a, 'd) frame" where
  "df_no_nulos df_principal = filter (\<lambda>(i, r). \<not> isnull_any r) (df_texto df_principal)"

definition mask_monto_invalido :: "(string, 'd) row \<Rightarrow> bool" where
  "mask_monto_invalido r \<longleftrightarrow>
     (let Amount_str = upper (astype_str (Amount r))
      in \<not> (contains Amount_str ''USD'' \<or> contains Amount_str ''EUR''))"

definition df_monto_invalido :: "(string, 'd) frame \<Rightarrow> (string, 'd) frame" where
  "df_monto_invalido df_principal =
     filter (\<lambda>(i, r). mask_monto_invalido r) (df_no_nulos df_principal)"

definition df_restantes :: "(string, 'd) frame \<Rightarrow> (string, 'd) frame" where
  "df_restantes df_principal =
     filter (\<lambda>(i, r). \<not> mask_monto_invalido r) (df_no_nulos df_principal)"

definition df_duplicados :: "(string, 'd) frame \<Rightarrow> (string, 'd) frame" where
  "df_duplicados df_principal =
     filter (duplicated (\<lambda>(i, r). Sale_ID r) (df_restantes df_principal))
       (df_restantes df_principal)"

definition con_reason :: "string \<Rightarrow> ('a, 'd) row \<Rightarrow> ('a, 'd) invalid_row" where
  "con_reason c r =
     \<lparr>Sale_ID = Sale_ID r, Product = Product r, Amount = Amount r, Date = Date r,
      Audit_Date = Audit_Date r, Reason = c\<rparr>"

text \<open>
  \<open>pd.concat(_, ignore_index=True)\<close> of the three frames: the rows in that order,
  numbered anew. No operation of the \<open>try\<close> block raises on a frame that has the five
  columns, so the \<open>except\<close> branch has no counterpart here.
\<close>

definition limpiar_ventas_invalidas ::
    "(string, 'd) frame \<Rightarrow> (nat \<times> (string, 'd) invalid_row) list" where
  "limpiar_ventas_invalidas df_principal =
     enumerate 0
       (map snd
          (assign (con_reason ''N'') (df_nulos df_principal)
           @ assign (con_reason ''A'') (df_monto_invalido df_principal)
           @ assign (con_reason ''D'') (df_duplicados df_principal)))"

section \<open>generar_ventas_resumen_mensual\<close>

definition digit :: "nat \<Rightarrow> char" where
  "digit n = ''0123456789'' ! (n mod 10)"

text \<open>\<open>strftime('%m/%Y')\<close>.\<close>

definition strftime_mY :: "date \<Rightarrow> string" where
  "strftime_mY d =
     [digit (month d div 10), digit (month d)] @ ''/''
       @ [digit (year d div 1000), digit (year d div 100), digit (year d div 10),
          digit (year d)]"

text \<open>
  The key of a row under \<open>groupby(['Mes', 'Product'])\<close>; a row with a missing key cell
  belongs to no group.
\<close>

definition group_key :: "('a, date) row \<Rightarrow> (string \<times> string) option" where
  "group_key r =
     (case (map_option strftime_mY (Date r), Product r) of
        (Some m, Some p) \<Rightarrow> Some (m, p)
      | _ \<Rightarrow> None)"

definition grupo :: "string \<times> string \<Rightarrow> ('a, date) frame \<Rightarrow> ('a, date) row list" where
  "grupo k df = filter (\<lambda>r. group_key r = Some k) (map snd df)"

fun agg_min :: "rat list \<Rightarrow> rat option" where
  "agg_min [] = None"
| "agg_min (x # xs) = Some (fold min xs x)"

text \<open>\<open>agg({'Amount': ['sum', 'count', 'min']})\<close> on one group; missing amounts are skipped.\<close>

definition agg :: "string \<times> string \<Rightarrow> (rat, date) frame \<Rightarrow> resumen_row" where
  "agg k df =
     (let amounts = List.map_filter Amount (grupo k df)
      in \<lparr>Mes = fst k, Producto = snd k, Ventas_Totales = sum_list amounts,
          Numero_Transacciones = length amounts, Venta_Minima = agg_min amounts\<rparr>)"


section \<open>The record-level view of the cleaning\<close>

text \<open>
  What the column operations of \<open>limpiar_ventas_validas\<close> do to one row, taken alone;
  an amount that does not convert is missing here (in the function it raises).
\<close>

definition normalizar :: "parsers \<Rightarrow> (string, string) row \<Rightarrow> (rat, date) row" where
  "normalizar pd r =
     \<lparr>Sale_ID = map_option upper (Sale_ID r),
      Product = map_option product_letter (Product r),
      Amount = (case amount_cell pd (Amount r) of Inl e \<Rightarrow> None | Inr v \<Rightarrow> v),
      Date = Option.bind (Date r) (to_datetime pd),
      Audit_Date = Audit_Date r\<rparr>"


text \<open>The index labels of a frame.\<close>

definition indices :: "(nat \<times> 'r) list \<Rightarrow> nat set" where
  "indices df = fst ` set df"

section \<open>A concrete reading of the two pandas conversions\<close>

text \<open>
  Used to run the functions on example batches: dates written \<open>YYYY-MM-DD\<close> and
  amounts written as plain decimal numerals (or \<open>nan\<close>).
\<close>

definition digit_of :: "char \<Rightarrow> nat option" where
  "digit_of c = map_of (zip ''0123456789'' [0, 1, 2, 3, 4, 5, 6, 7, 8, 9]) c"

fun nat_of_digits :: "nat \<Rightarrow> string \<Rightarrow> nat option" where
  "nat_of_digits acc [] = Some acc"
| "nat_of_digits acc (c # cs) =
     (case digit_of c of None \<Rightarrow> None | Some d \<Rightarrow> nat_of_digits (10 * acc + d) cs)"

definition days_in_month :: "nat \<Rightarrow> nat \<Rightarrow> nat" where
  "days_in_month y m =
     (if m = 2 then (if y mod 4 = 0 \<and> (y mod 100 \<noteq> 0 \<or> y mod 400 = 0) then 29 else 28)
      else if m \<in> set [4, 6, 9, 11] then 30 else 31)"

definition iso_datetime :: "string \<Rightarrow> date option" where
  "iso_datetime s =
     (case split CHR ''-'' s of
        [y, m, d] \<Rightarrow>
          (if length y = 4 \<and> length m = 2 \<and> length d = 2 then
             (case (nat_of_digits 0 y, nat_of_digits 0 m, nat_of_digits 0 d) of
                (Some yy, Some mm, Some dd) \<Rightarrow>
                  (if 1 \<le> mm \<and> mm \<le> 12 \<and> 1 \<le> dd \<and> dd \<le> days_in_month yy mm
                   then Some \<lparr>year = yy, month = mm, day = dd\<rparr> else None)
              | _ \<Rightarrow> None)
           else None)
      | _ \<Rightarrow> None)"

definition unsigned_decimal :: "string \<Rightarrow> error + rat option" where
  "unsigned_decimal s =
     (case split CHR ''.'' s of
        [a] \<Rightarrow>
          (case nat_of_digits 0 a of
             Some n \<Rightarrow> (if a = [] then Inl ValueError else Inr (Some (of_nat n)))
           | None \<Rightarrow> Inl ValueError)
      | [a, b] \<Rightarrow>
          (case (nat_of_digits 0 a, nat_of_digits 0 b) of
             (Some n, Some f) \<Rightarrow>
               (if a = [] \<and> b = [] then Inl ValueError
                else Inr (Some (of_nat n + of_nat f / 10 ^ length b)))
           | _ \<Rightarrow> Inl ValueError)
      | _ \<Rightarrow> Inl ValueError)"

definition decimal_float :: "string \<Rightarrow> error + rat option" where
  "decimal_float s =
     (let t = strip s
      in if upper t = ''NAN'' then Inr None
         else (case t of
                 c # u \<Rightarrow>
                   (if c = CHR ''-'' then
                      (case unsigned_decimal u of
                         Inl e \<Rightarrow> Inl e
                       | Inr v \<Rightarrow> Inr (map_option uminus v))
                    else if c = CHR ''+'' then unsigned_decimal u
                    else unsigned_decimal t)
               | [] \<Rightarrow> Inl ValueError))"

definition pandas :: parsers where
  "pandas = \<lparr>to_datetime = iso_datetime, to_float = decimal_float\<rparr>"

definition fila ::
    "string option \<Rightarrow> string option \<Rightarrow> 'a option \<Rightarrow> 'd option \<Rightarrow> date option
      \<Rightarrow> ('a, 'd) row" where
  "fila s p a d u = \<lparr>Sale_ID = s, Product = p, Amount = a, Date = d, Audit_Date = u\<rparr>"

section \<open>Example batches\<close>

definition auditoria :: "date option" where
  "auditoria = Some \<lparr>year = 2024, month = 3, day = 31\<rparr>"



text \<open>Rows for each of the three reasons, and one row that is valid.\<close>

definition lote_invalidas :: "(string, string) frame" where
  "lote_invalidas =
     [(0, fila (Some ''a1'') (Some ''P-A'') (Some ''100EUR'') (Some ''2024-03-05'') auditoria),
      (1, fila (Some ''A2'') (Some ''P-B'') (Some ''8USD'') None auditoria),
      (2, fila (Some ''A3'') (Some ''P-C'') (Some ''9'') (Some ''2024-04-01'') auditoria),
      (3, fila (Some ''A1'') (Some ''P-B'') (Some ''7USD'') (Some ''2024-03-06'') auditoria),
      (4, fila (Some ''A4'') (Some ''P-C'') (Some ''12.5USD'') (Some ''2024-04-02'') auditoria),
      (5, fila (Some ''A5'') (Some ''P-C'') None (Some ''2024-04-02'') auditoria)]"

text \<open>A date cell that holds text but no date, before a valid row.\<close>

definition lote_fecha_ilegible :: "(string, string) frame" where
  "lote_fecha_ilegible =
     [(0, fila (Some ''X1'') (Some ''P-A'') (Some ''10USD'') (Some ''pendiente'') auditoria),
      (1, fila (Some ''X2'') (Some ''P-B'') (Some ''20USD'') (Some ''2024-03-05'') auditoria)]"

text \<open>The same with an amount that names no currency, before a valid row.\<close>

definition lote_sin_divisa :: "(string, string) frame" where
  "lote_sin_divisa =
     [(0, fila (Some ''X7'') (Some ''P-A'') (Some ''10'') (Some ''pendiente'') auditoria),
      (1, fila (Some ''X8'') (Some ''P-B'') (Some ''20USD'') (Some ''2024-03-05'') auditoria)]"



text \<open>Amounts that are no numbers once the currency is deleted.\<close>

definition lote_importe_ilegible :: "(string, string) frame" where
  "lote_importe_ilegible =
     [(0, fila (Some ''X1'') (Some ''P-A'') (Some ''10USD'') (Some ''2024-03-05'') auditoria),
      (1, fila (Some ''X2'') (Some ''P-B'') (Some ''abcUSD'') (Some ''2024-03-06'') auditoria)]"

definition lote_coma_decimal :: "(string, string) frame" where
  "lote_coma_decimal =
     [(0, fila (Some ''X1'') (Some ''P-A'') (Some ''12,50USD'') (Some ''2024-03-05'') auditoria)]"




section \<open>Lemmas on the data-frame operations\<close>

lemma error_eq: "(x :: error) = y"
  by (cases x; cases y) simp

lemma assign_Nil [simp]: "assign f [] = []"
  by (simp add: assign_def)

lemma assign_Cons [simp]: "assign f ((i, r) # df) = (i, f r) # assign f df"
  by (simp add: assign_def)

lemma assign_append [simp]: "assign f (xs @ ys) = assign f xs @ assign f ys"
  by (simp add: assign_def)

lemma map_fst_assign [simp]: "map fst (assign f df) = map fst df"
  by (induction df) (auto simp: assign_def)

lemma assign_assign: "assign g (assign f df) = assign (g \<circ> f) df"
  by (induction df) auto

lemma set_assign: "set (assign f df) = (\<lambda>(i, r). (i, f r)) ` set df"
  by (simp add: assign_def)

lemma filter_assign:
  "filter (\<lambda>(i, r). P r) (assign f df) = assign f (filter (\<lambda>(i, r). P (f r)) df)"
  by (induction df) auto

lemma dds_assign:
  "drop_duplicates_seen (\<lambda>(i, r). k r) seen (assign f df)
     = assign f (drop_duplicates_seen (\<lambda>(i, r). k (f r)) seen df)"
  by (induction df arbitrary: seen) auto

lemma drop_duplicates_assign:
  "drop_duplicates (\<lambda>(i, r). k r) (assign f df)
     = assign f (drop_duplicates (\<lambda>(i, r). k (f r)) df)"
  by (simp add: drop_duplicates_def dds_assign)

lemma set_dds_subset: "set (drop_duplicates_seen key seen xs) \<subseteq> set xs"
  by (induction xs arbitrary: seen) auto

lemma subseq_dds: "subseq (drop_duplicates_seen key seen xs) xs"
  by (induction xs arbitrary: seen) auto


section \<open>The closed form of limpiar_ventas_validas\<close>

lemma amount_column_Inr:
  "amount_column pd df = Inr df' \<Longrightarrow>
     df' = assign (\<lambda>r. with_Amount r
                         (case amount_cell pd (Amount r) of Inl e \<Rightarrow> None | Inr v \<Rightarrow> v)) df"
  by (induction pd df arbitrary: df' rule: amount_column.induct) (auto split: sum.splits)

lemma amount_column_Inl:
  "amount_column pd df = Inl e \<longleftrightarrow> (\<exists>(i, r) \<in> set df. amount_cell pd (Amount r) = Inl e)"
  by (induction pd df rule: amount_column.induct) (auto split: sum.splits intro: error_eq)

text \<open>
  Whenever the function returns, its result is: normalise every row, drop the rows without
  \<open>Sale_ID\<close>, keep the first row of each \<open>Sale_ID\<close>, and then drop the rows that
  have a missing cell.
\<close>

lemma validas_closed:
  assumes "limpiar_ventas_validas pd df = Inr vs"
  shows "vs = filter (\<lambda>(i, r). \<not> isnull_any r)
                (drop_duplicates (\<lambda>(i, r). Sale_ID r)
                   (filter (\<lambda>(i, r). Sale_ID r \<noteq> None) (assign (normalizar pd) df)))"
proof -
  define X where "X = drop_duplicates (\<lambda>(i, r). map_option upper (Sale_ID r))
                        (filter (\<lambda>(i, r). Sale_ID r \<noteq> None) df)"
  define base where "base = filter (\<lambda>(i, r). Product r \<noteq> None) X"
  define f21 :: "(string, string) row \<Rightarrow> (string, string) row" where
    "f21 = (\<lambda>r. r\<lparr>Sale_ID := map_option upper (Sale_ID r),
                    Product := map_option product_letter (Product r)\<rparr>)"
  define g where "g = (\<lambda>r. with_Amount (f21 r) (Amount (normalizar pd r)))"
  have df5: "filter (\<lambda>(i, r). Product r \<noteq> None)
               (assign (\<lambda>r. r\<lparr>Product := map_option product_letter (Product r)\<rparr>)
                  (drop_duplicates (\<lambda>(i, r). Sale_ID r)
                     (filter (\<lambda>(i, r). Sale_ID r \<noteq> None)
                        (assign (\<lambda>r. r\<lparr>Sale_ID := map_option upper (Sale_ID r)\<rparr>) df))))
             = assign f21 base"
    by (simp add: filter_assign drop_duplicates_assign assign_assign base_def X_def f21_def o_def)
  from assms obtain df6 where
    a: "amount_column pd (assign f21 base) = Inr df6" and
    vs: "vs = filter (\<lambda>(i, r). Audit_Date r \<noteq> None)
               (filter (\<lambda>(i, r). Date r \<noteq> None)
                  (assign (\<lambda>r. with_Date r (Option.bind (Date r) (to_datetime pd)))
                     (filter (\<lambda>(i, r). Amount r \<noteq> None) df6)))"
    unfolding limpiar_ventas_validas_def Let_def df5 by (auto split: sum.splits)
  have df6: "df6 = assign g base"
    using amount_column_Inr [OF a]
    by (simp add: assign_assign o_def f21_def normalizar_def g_def)
  have N: "with_Date (g r) (Option.bind (Date (g r)) (to_datetime pd)) = normalizar pd r" for r
    by (simp add: with_Date_def with_Amount_def f21_def normalizar_def g_def)
  have A: "Amount (g r) = Amount (normalizar pd r)" for r
    by (simp add: g_def with_Amount_def)
  have s1: "filter (\<lambda>(i, r). Amount r \<noteq> None) df6
              = assign g (filter (\<lambda>(i, r). Amount (normalizar pd r) \<noteq> None) base)"
    by (simp add: df6 filter_assign A)
  have s2: "assign (\<lambda>r. with_Date r (Option.bind (Date r) (to_datetime pd))) (assign g Y)
              = assign (normalizar pd) Y" for Y
    by (simp add: assign_assign o_def N)
  have vs': "vs = assign (normalizar pd)
               (filter (\<lambda>(i, r). Audit_Date (normalizar pd r) \<noteq> None)
                  (filter (\<lambda>(i, r). Date (normalizar pd r) \<noteq> None)
                     (filter (\<lambda>(i, r). Amount (normalizar pd r) \<noteq> None)
                        (filter (\<lambda>(i, r). Product r \<noteq> None) X))))"
    unfolding vs s1 s2 filter_assign base_def ..
  have X: "\<And>i r. (i, r) \<in> set X \<Longrightarrow> Sale_ID r \<noteq> None"
    using set_dds_subset [of "\<lambda>(i, r). map_option upper (Sale_ID r)" "[]"
        "filter (\<lambda>(i, r). Sale_ID r \<noteq> None) df"]
    by (auto simp: X_def drop_duplicates_def)
  have rhs: "filter (\<lambda>(i, r). \<not> isnull_any r)
                (drop_duplicates (\<lambda>(i, r). Sale_ID r)
                   (filter (\<lambda>(i, r). Sale_ID r \<noteq> None) (assign (normalizar pd) df)))
             = assign (normalizar pd) (filter (\<lambda>(i, r). \<not> isnull_any (normalizar pd r)) X)"
    by (simp add: filter_assign drop_duplicates_assign X_def normalizar_def)
  have "filter (\<lambda>(i, r). Audit_Date (normalizar pd r) \<noteq> None)
                  (filter (\<lambda>(i, r). Date (normalizar pd r) \<noteq> None)
                     (filter (\<lambda>(i, r). Amount (normalizar pd r) \<noteq> None)
                        (filter (\<lambda>(i, r). Product r \<noteq> None) X)))
        = filter (\<lambda>(i, r). \<not> isnull_any (normalizar pd r)) X"
    unfolding filter_filter
    by (rule filter_cong [OF refl]) (auto simp: isnull_any_def normalizar_def dest: X)
  then show ?thesis unfolding vs' rhs by simp
qed

text \<open>
  The function raises exactly when a row that is still in the frame at the Amount block
  (it has a \<open>Sale_ID\<close>, is the first of its \<open>Sale_ID\<close> and has a product) has an
  amount that does not convert.
\<close>

lemma validas_raises_iff:
  "limpiar_ventas_validas pd df = Inl e \<longleftrightarrow>
     (\<exists>(i, r) \<in> set (filter (\<lambda>(i, r). Product r \<noteq> None)
                        (drop_duplicates (\<lambda>(i, r). map_option upper (Sale_ID r))
                           (filter (\<lambda>(i, r). Sale_ID r \<noteq> None) df))).
        amount_cell pd (Amount r) = Inl e)"
proof -
  define base where "base = filter (\<lambda>(i, r). Product r \<noteq> None)
                        (drop_duplicates (\<lambda>(i, r). map_option upper (Sale_ID r))
                           (filter (\<lambda>(i, r). Sale_ID r \<noteq> None) df))"
  define f21 :: "(string, string) row \<Rightarrow> (string, string) row" where
    "f21 = (\<lambda>r. r\<lparr>Sale_ID := map_option upper (Sale_ID r),
                    Product := map_option product_letter (Product r)\<rparr>)"
  have df5: "filter (\<lambda>(i, r). Product r \<noteq> None)
               (assign (\<lambda>r. r\<lparr>Product := map_option product_letter (Product r)\<rparr>)
                  (drop_duplicates (\<lambda>(i, r). Sale_ID r)
                     (filter (\<lambda>(i, r). Sale_ID r \<noteq> None)
                        (assign (\<lambda>r. r\<lparr>Sale_ID := map_option upper (Sale_ID r)\<rparr>) df))))
             = assign f21 base"
    by (simp add: filter_assign drop_duplicates_assign assign_assign base_def f21_def o_def)
  have "limpiar_ventas_validas pd df = Inl e \<longleftrightarrow> amount_column pd (assign f21 base) = Inl e"
    unfolding limpiar_ventas_validas_def Let_def df5 by (auto split: sum.splits)
  also have "\<dots> \<longleftrightarrow> (\<exists>(i, r) \<in> set base. amount_cell pd (Amount r) = Inl e)"
    unfolding amount_column_Inl by (force simp: set_assign f21_def)
  finally show ?thesis unfolding base_def .
qed

section \<open>Which rows reach the valid output\<close>







lemma validas_complete:
  assumes "limpiar_ventas_validas pd df = Inr vs"
  shows "\<forall>(i, r) \<in> set vs. \<not> isnull_any r"
  unfolding validas_closed [OF assms] by auto


section \<open>The three frames of limpiar_ventas_invalidas\<close>

lemma indices_assign [simp]: "indices (assign f df) = indices df"
  by (force simp: indices_def set_assign)

lemma indices_filter_subset: "indices (filter P df) \<subseteq> indices df"
  by (auto simp: indices_def)

lemma indices_filter:
  assumes "distinct (map fst df)" "(i, r) \<in> set df"
  shows "i \<in> indices (filter (\<lambda>(i, r). P r) df) \<longleftrightarrow> P r"
proof
  assume "i \<in> indices (filter (\<lambda>(i, r). P r) df)"
  then obtain r' where "(i, r') \<in> set df" "P r'" by (auto simp: indices_def)
  with assms show "P r" using eq_key_imp_eq_value by metis
next
  assume "P r"
  with assms(2) show "i \<in> indices (filter (\<lambda>(i, r). P r) df)"
    by (force simp: indices_def)
qed

lemma isnull_any_texto [simp]:
  "isnull_any (texto r) \<longleftrightarrow> Amount r = None \<or> Date r = None \<or> Audit_Date r = None"
  by (simp add: isnull_any_def texto_def)

lemma mask_monto_invalido_texto [simp]: "mask_monto_invalido (texto r) = mask_monto_invalido r"
  by (simp add: mask_monto_invalido_def texto_def)

lemma Sale_ID_texto [simp]: "Sale_ID (texto r) = Some (upper (astype_str (Sale_ID r)))"
  by (simp add: texto_def)

lemma df_nulos_eq:
  "df_nulos df =
     assign texto (filter (\<lambda>(i, r). Amount r = None \<or> Date r = None \<or> Audit_Date r = None) df)"
  by (simp add: df_nulos_def df_texto_def filter_assign)

lemma df_no_nulos_eq:
  "df_no_nulos df =
     assign texto
       (filter (\<lambda>(i, r). \<not> (Amount r = None \<or> Date r = None \<or> Audit_Date r = None)) df)"
  by (simp add: df_no_nulos_def df_texto_def filter_assign)

lemma df_monto_invalido_eq:
  "df_monto_invalido df =
     assign texto
       (filter (\<lambda>(i, r). \<not> (Amount r = None \<or> Date r = None \<or> Audit_Date r = None)
                   \<and> mask_monto_invalido r) df)"
  by (simp add: df_monto_invalido_def df_no_nulos_eq filter_assign)
    (simp add: case_prod_unfold)

lemma df_restantes_eq:
  "df_restantes df =
     assign texto
       (filter (\<lambda>(i, r). \<not> (Amount r = None \<or> Date r = None \<or> Audit_Date r = None)
                   \<and> \<not> mask_monto_invalido r) df)"
  by (simp add: df_restantes_def df_no_nulos_eq filter_assign)
    (simp add: case_prod_unfold)

lemma indices_duplicados_subset: "indices (df_duplicados df) \<subseteq> indices (df_restantes df)"
  by (auto simp: df_duplicados_def indices_def)


lemma Reason_con_reason [simp]: "Reason (con_reason c r) = c"
  by (simp add: con_reason_def)

lemma map_snd_assign: "map snd (assign f df) = map (f \<circ> snd) df"
  by (induction df) auto

lemma invalidas_rows:
  "map snd (limpiar_ventas_invalidas df)
     = map (con_reason ''N'' \<circ> snd) (df_nulos df)
       @ map (con_reason ''A'' \<circ> snd) (df_monto_invalido df)
       @ map (con_reason ''D'' \<circ> snd) (df_duplicados df)"
  by (simp add: limpiar_ventas_invalidas_def map_snd_enumerate map_snd_assign)

lemma in_nulos:
  "distinct (map fst df) \<Longrightarrow> (i, r) \<in> set df \<Longrightarrow>
     i \<in> indices (df_nulos df) \<longleftrightarrow> Amount r = None \<or> Date r = None \<or> Audit_Date r = None"
  by (simp add: df_nulos_eq indices_filter)

lemma in_no_nulos:
  "distinct (map fst df) \<Longrightarrow> (i, r) \<in> set df \<Longrightarrow>
     i \<in> indices (df_no_nulos df) \<longleftrightarrow>
       \<not> (Amount r = None \<or> Date r = None \<or> Audit_Date r = None)"
  by (simp add: df_no_nulos_eq indices_filter)

lemma in_monto_invalido:
  "distinct (map fst df) \<Longrightarrow> (i, r) \<in> set df \<Longrightarrow>
     i \<in> indices (df_monto_invalido df) \<longleftrightarrow>
       \<not> (Amount r = None \<or> Date r = None \<or> Audit_Date r = None) \<and> mask_monto_invalido r"
  by (simp add: df_monto_invalido_eq indices_filter)

lemma in_restantes:
  "distinct (map fst df) \<Longrightarrow> (i, r) \<in> set df \<Longrightarrow>
     i \<in> indices (df_restantes df) \<longleftrightarrow>
       \<not> (Amount r = None \<or> Date r = None \<or> Audit_Date r = None) \<and> \<not> mask_monto_invalido r"
  by (simp add: df_restantes_eq indices_filter)

lemma subseq_map_fst_filter: "subseq (map fst (filter P df)) (map fst df)"
  by (simp add: subseq_map)

lemma disjoint_filters:
  assumes "distinct (map fst df)" and "\<And>r. P r \<Longrightarrow> Q r \<Longrightarrow> False"
  shows "indices (filter (\<lambda>(i, r). P r) df) \<inter> indices (filter (\<lambda>(i, r). Q r) df) = {}"
proof -
  have False if "(i, r) \<in> set df" "P r" "(i, r') \<in> set df" "Q r'" for i r r'
    using eq_key_imp_eq_value [OF assms(1) that(1) that(3)] that assms(2) by blast
  then show ?thesis by (auto simp: indices_def)
qed


section \<open>Lemmas on the monthly summary\<close>



lemma Mes_agg [simp]: "Mes (agg k df) = fst k" and Producto_agg [simp]: "Producto (agg k df) = snd k"
  by (simp_all add: agg_def Let_def)






section \<open>No record is lost between the two classifiers\<close>




section \<open>An amount that is no number\<close>

text \<open>
  Claim C2 says that normalising a record never raises and that an amount whose text is
  no number, once \<open>USD\<close> and \<open>EUR\<close> are deleted, becomes a missing value. In the code
  the conversion \<open>astype(float)\<close> raises \<open>ValueError\<close> on such a cell, and the whole
  batch is lost with it: the first row below is a valid sale.
\<close>

theorem amount_conversion_raises:
  "amount_cell pandas (Some ''abcUSD'') = Inl ValueError
   \<and> limpiar_ventas_validas pandas lote_importe_ilegible = Inl ValueError"
  by code_simp

section \<open>The order of the two steps of the Validity Classifier\<close>




section \<open>Reason N\<close>

text \<open>
  Claim C4, as the code has it. Among the records that have a \<open>Sale_ID\<close> and a product,
  reason \<open>N\<close> is given to exactly those whose amount, date or audit date is missing in
  the extracted frame; such a record reaches neither the currency rule nor the duplicate
  rule; and the rows of the output that carry \<open>N\<close> are the rows of \<open>df_nulos\<close>.
\<close>

theorem reason_N_only_raw_nulls:
  assumes "distinct (map fst df)" and "(i, r) \<in> set df"
    and "Sale_ID r \<noteq> None" and "Product r \<noteq> None"
  shows "(i \<in> indices (df_nulos df) \<longleftrightarrow>
            Amount r = None \<or> Date r = None \<or> Audit_Date r = None)
       \<and> (i \<in> indices (df_nulos df) \<longrightarrow>
            i \<notin> indices (df_no_nulos df) \<and> i \<notin> indices (df_monto_invalido df)
              \<and> i \<notin> indices (df_duplicados df))
       \<and> filter (\<lambda>w. Reason w = ''N'') (map snd (limpiar_ventas_invalidas df))
            = map (con_reason ''N'' \<circ> snd) (df_nulos df)"
proof -
  have 1: "i \<in> indices (df_nulos df) \<longleftrightarrow>
            Amount r = None \<or> Date r = None \<or> Audit_Date r = None"
    using assms(1,2) by (rule in_nulos)
  have 2: "i \<in> indices (df_nulos df) \<longrightarrow>
            i \<notin> indices (df_no_nulos df) \<and> i \<notin> indices (df_monto_invalido df)
              \<and> i \<notin> indices (df_duplicados df)"
    using in_nulos [OF assms(1,2)] in_no_nulos [OF assms(1,2)]
      in_monto_invalido [OF assms(1,2)] in_restantes [OF assms(1,2)]
      indices_duplicados_subset [of df]
    by blast
  have 3: "filter (\<lambda>w. Reason w = ''N'') (map snd (limpiar_ventas_invalidas df))
            = map (con_reason ''N'' \<circ> snd) (df_nulos df)"
    by (simp add: invalidas_rows filter_map o_def)
  from 1 2 3 show ?thesis by blast
qed

theorem reason_N_only_raw_nulls_witness:
  "1 \<in> indices (df_nulos lote_invalidas)
   \<and> 1 \<notin> indices (df_no_nulos lote_invalidas)
   \<and> 1 \<notin> indices (df_monto_invalido lote_invalidas)
   \<and> 1 \<notin> indices (df_duplicados lote_invalidas)
   \<and> 4 \<notin> indices (df_nulos lote_invalidas)
   \<and> filter (\<lambda>w. Reason w = ''N'') (map snd (limpiar_ventas_invalidas lote_invalidas))
       = map (con_reason ''N'' \<circ> snd) (df_nulos lote_invalidas)"
proof -
  let ?rb = "fila (Some ''A2'') (Some ''P-B'') (Some ''8USD'') None auditoria"
  let ?rd = "fila (Some ''A4'') (Some ''P-C'') (Some ''12.5USD'') (Some ''2024-04-02'') auditoria"
  have dist: "distinct (map fst lote_invalidas)"
    by (simp add: lote_invalidas_def)
  have m1: "(1, ?rb) \<in> set lote_invalidas" and m4: "(4, ?rd) \<in> set lote_invalidas"
    by (simp_all add: lote_invalidas_def)
  have sp1: "Sale_ID ?rb \<noteq> None" "Product ?rb \<noteq> None"
    and sp4: "Sale_ID ?rd \<noteq> None" "Product ?rd \<noteq> None"
    by (simp_all add: fila_def)
  have n1: "Amount ?rb = None \<or> Date ?rb = None \<or> Audit_Date ?rb = None"
    by (simp add: fila_def)
  have n4: "\<not> (Amount ?rd = None \<or> Date ?rd = None \<or> Audit_Date ?rd = None)"
    by (simp add: fila_def auditoria_def)
  from reason_N_only_raw_nulls [OF dist m1 sp1] reason_N_only_raw_nulls [OF dist m4 sp4] n1 n4
  show ?thesis by blast
qed

text \<open>
  A date that is present but is no date fails the normalisation and still is not given
  reason \<open>N\<close>: \<open>limpiar_ventas_invalidas\<close> converts neither dates nor amounts. The
  row goes on to the rules that follow.
\<close>

theorem reason_N_unparseable_date_counterexample:
  "Date (normalizar pandas
          (fila (Some ''X1'') (Some ''P-A'') (Some ''10USD'') (Some ''pendiente'') auditoria)) = None
   \<and> df_nulos lote_fecha_ilegible = []
   \<and> map fst (df_no_nulos lote_fecha_ilegible) = [0, 1]"
  by code_simp

section \<open>Duplicated sales\<close>




section \<open>The three frames are disjoint and keep the input order\<close>

text \<open>
  Claim C7, as the code has it. The index labels of \<open>df_nulos\<close>,
  \<open>df_monto_invalido\<close> and \<open>df_duplicados\<close> are pairwise disjoint; the rows of the
  output are those of \<open>df_nulos\<close> with reason \<open>N\<close>, then those of
  \<open>df_monto_invalido\<close> with reason \<open>A\<close>, then those of \<open>df_duplicados\<close> with
  reason \<open>D\<close>; each frame lists its rows in the order of the batch; and a record with a
  missing amount, date or audit date whose amount also names no currency is in
  \<open>df_nulos\<close> only.
\<close>

theorem buckets_disjoint_in_order:
  assumes "distinct (map fst df)"
  shows "indices (df_nulos df) \<inter> indices (df_monto_invalido df) = {}
       \<and> indices (df_nulos df) \<inter> indices (df_duplicados df) = {}
       \<and> indices (df_monto_invalido df) \<inter> indices (df_duplicados df) = {}
       \<and> map snd (limpiar_ventas_invalidas df)
           = map (con_reason ''N'' \<circ> snd) (df_nulos df)
             @ map (con_reason ''A'' \<circ> snd) (df_monto_invalido df)
             @ map (con_reason ''D'' \<circ> snd) (df_duplicados df)
       \<and> subseq (map fst (df_nulos df)) (map fst df)
       \<and> subseq (map fst (df_monto_invalido df)) (map fst df)
       \<and> subseq (map fst (df_duplicados df)) (map fst df)
       \<and> (\<forall>(i, r) \<in> set df.
            (Amount r = None \<or> Date r = None \<or> Audit_Date r = None) \<and> mask_monto_invalido r
              \<longrightarrow> i \<in> indices (df_nulos df) \<and> i \<notin> indices (df_monto_invalido df)
                    \<and> i \<notin> indices (df_duplicados df))"
proof -
  have NA: "indices (df_nulos df) \<inter> indices (df_monto_invalido df) = {}"
    unfolding df_nulos_eq df_monto_invalido_eq indices_assign
    by (rule disjoint_filters [OF assms]) blast
  have NR: "indices (df_nulos df) \<inter> indices (df_restantes df) = {}"
    unfolding df_nulos_eq df_restantes_eq indices_assign
    by (rule disjoint_filters [OF assms]) blast
  have AR: "indices (df_monto_invalido df) \<inter> indices (df_restantes df) = {}"
    unfolding df_monto_invalido_eq df_restantes_eq indices_assign
    by (rule disjoint_filters [OF assms]) blast
  have ND: "indices (df_nulos df) \<inter> indices (df_duplicados df) = {}"
    using NR indices_duplicados_subset [of df] by blast
  have AD: "indices (df_monto_invalido df) \<inter> indices (df_duplicados df) = {}"
    using AR indices_duplicados_subset [of df] by blast
  have sN: "subseq (map fst (df_nulos df)) (map fst df)"
    by (simp add: df_nulos_eq subseq_map_fst_filter)
  have sA: "subseq (map fst (df_monto_invalido df)) (map fst df)"
    by (simp add: df_monto_invalido_eq subseq_map_fst_filter)
  have "subseq (map fst (df_duplicados df)) (map fst (df_restantes df))"
    unfolding df_duplicados_def by (rule subseq_map_fst_filter)
  moreover have "subseq (map fst (df_restantes df)) (map fst df)"
    by (simp add: df_restantes_eq subseq_map_fst_filter)
  ultimately have sD: "subseq (map fst (df_duplicados df)) (map fst df)"
    by (rule subseq_order.trans)
  have P: "\<forall>(i, r) \<in> set df.
            (Amount r = None \<or> Date r = None \<or> Audit_Date r = None) \<and> mask_monto_invalido r
              \<longrightarrow> i \<in> indices (df_nulos df) \<and> i \<notin> indices (df_monto_invalido df)
                    \<and> i \<notin> indices (df_duplicados df)"
    using in_nulos [OF assms] NA ND by blast
  from NA ND AD invalidas_rows [of df] sN sA sD P show ?thesis by blast
qed

theorem buckets_disjoint_in_order_witness:
  "map fst (df_nulos lote_invalidas) = [1, 5]
   \<and> map fst (df_monto_invalido lote_invalidas) = [2]
   \<and> map fst (df_duplicados lote_invalidas) = [0, 3]
   \<and> indices (df_nulos lote_invalidas) \<inter> indices (df_monto_invalido lote_invalidas) = {}
   \<and> indices (df_nulos lote_invalidas) \<inter> indices (df_duplicados lote_invalidas) = {}
   \<and> indices (df_monto_invalido lote_invalidas) \<inter> indices (df_duplicados lote_invalidas) = {}
   \<and> map (\<lambda>(i, w). Reason w) (limpiar_ventas_invalidas lote_invalidas)
       = [''N'', ''N'', ''A'', ''D'', ''D'']
   \<and> subseq (map fst (df_duplicados lote_invalidas)) (map fst lote_invalidas)
   \<and> 5 \<in> indices (df_nulos lote_invalidas)
   \<and> 5 \<notin> indices (df_monto_invalido lote_invalidas)"
proof -
  let ?re = "fila (Some ''A5'') (Some ''P-C'') None (Some ''2024-04-02'') auditoria"
  have dist: "distinct (map fst lote_invalidas)"
    by (simp add: lote_invalidas_def)
  have e: "map fst (df_nulos lote_invalidas) = [1, 5]"
    "map fst (df_monto_invalido lote_invalidas) = [2]"
    "map fst (df_duplicados lote_invalidas) = [0, 3]"
    "map (\<lambda>(i, w). Reason w) (limpiar_ventas_invalidas lote_invalidas)
       = [''N'', ''N'', ''A'', ''D'', ''D'']"
    by code_simp+
  have m5: "(5, ?re) \<in> set lote_invalidas"
    by (simp add: lote_invalidas_def)
  have n5: "(Amount ?re = None \<or> Date ?re = None \<or> Audit_Date ?re = None)
              \<and> mask_monto_invalido ?re"
    by code_simp
  note t = buckets_disjoint_in_order [OF dist]
  note d1 = t [THEN conjunct1]
    and d2 = t [THEN conjunct2, THEN conjunct1]
    and d3 = t [THEN conjunct2, THEN conjunct2, THEN conjunct1]
    and sD = t [THEN conjunct2, THEN conjunct2, THEN conjunct2, THEN conjunct2, THEN conjunct2,
                THEN conjunct2, THEN conjunct1]
    and P = t [THEN conjunct2, THEN conjunct2, THEN conjunct2, THEN conjunct2, THEN conjunct2,
                THEN conjunct2, THEN conjunct2]
  note imp = bspec [OF P m5, unfolded prod.case]
  from mp [OF imp n5]
  have p5: "5 \<in> indices (df_nulos lote_invalidas)"
    "5 \<notin> indices (df_monto_invalido lote_invalidas)"
    by simp_all
  show ?thesis
    by (intro conjI) (fact e d1 d2 d3 sD p5)+
qed

text \<open>
  A field that is present but does not convert is not missing for this function: the
  first row below has a date cell that is no date and an amount without currency, and its
  reason is \<open>A\<close>.
\<close>

theorem precedence_unparseable_date_counterexample:
  "Date (normalizar pandas
          (fila (Some ''X7'') (Some ''P-A'') (Some ''10'') (Some ''pendiente'') auditoria)) = None
   \<and> mask_monto_invalido
        (fila (Some ''X7'') (Some ''P-A'') (Some ''10'') (Some ''pendiente'') auditoria)
   \<and> limpiar_ventas_invalidas lote_sin_divisa =
       [(0, \<lparr>Sale_ID = Some ''X7'', Product = Some ''A'', Amount = Some ''10'',
              Date = Some ''pendiente'', Audit_Date = auditoria, Reason = ''A''\<rparr>)]"
  by code_simp

section \<open>A fault inside limpiar_ventas_validas\<close>

text \<open>
  Claim C8 says that a fault inside any of the three functions is caught there and the
  function returns an empty frame. \<open>limpiar_ventas_invalidas\<close> and
  \<open>generar_ventas_resumen_mensual\<close> have a \<open>try\<close> block; \<open>limpiar_ventas_validas\<close>
  has none, and the \<open>ValueError\<close> of an amount written with a decimal comma leaves it.
\<close>

theorem validas_fault_propagates:
  "limpiar_ventas_validas pandas lote_coma_decimal = Inl ValueError"
  by code_simp

section \<open>The monthly summary\<close>





end
